theory Spec2Isabelle
  imports Complex_Main "HOL-Library.Char_ord" "HOL-Library.List_Lexorder"
    "HOL-Library.Product_Lexorder"
begin

section \<open>Conventions of the embedding\<close>

text \<open>
  Python \<open>int\<close> is modelled by \<^typ>\<open>int\<close>. Python \<open>float\<close> is modelled by \<^typ>\<open>real\<close> with
  exact arithmetic: the theorems below speak about the branch structure and the
  exact values of the computations, not about IEEE-754 rounding. \<open>round(x, d)\<close> is
  rounding of the exact value to \<open>d\<close> decimals, ties to the even neighbour.
\<close>

definition py_round :: "nat \<Rightarrow> real \<Rightarrow> real" where
  "py_round ndigits x =
     (let s = 10 ^ ndigits;
          y = x * s;
          f = \<lfloor>y\<rfloor>;
          d = y - of_int f
      in (if d < 1 / 2 then of_int f
          else if 1 / 2 < d then of_int (f + 1)
          else if even f then of_int f else of_int (f + 1)) / s)"

subsection \<open>Python values and strings\<close>

text \<open>
  Strings are lists of 8-bit characters. \<open>lower()\<close> is modelled on the ASCII letters,
  \<open>strip()\<close> on the ASCII white space characters; \<open>a in b\<close> on strings is the
  contiguous-substring test.
\<close>

definition py_lower_char :: "char \<Rightarrow> char" where
  "py_lower_char c =
     (let n = (of_char c :: nat) in if 65 \<le> n \<and> n \<le> 90 then char_of (n + 32) else c)"

definition py_lower :: "string \<Rightarrow> string" where
  "py_lower s = map py_lower_char s"

definition py_isspace :: "char \<Rightarrow> bool" where
  "py_isspace c = (let n = (of_char c :: nat) in (9 \<le> n \<and> n \<le> 13) \<or> (28 \<le> n \<and> n \<le> 32))"

definition py_strip :: "string \<Rightarrow> string" where
  "py_strip s = rev (dropWhile py_isspace (rev (dropWhile py_isspace s)))"

fun py_startswith :: "string \<Rightarrow> string \<Rightarrow> bool" where
  "py_startswith s [] = True"
| "py_startswith [] (p # ps) = False"
| "py_startswith (c # cs) (p # ps) = (c = p \<and> py_startswith cs ps)"

fun py_in :: "string \<Rightarrow> string \<Rightarrow> bool" where
  "py_in sub [] = (sub = [])"
| "py_in sub (c # cs) = (py_startswith (c # cs) sub \<or> py_in sub cs)"

text \<open>Truthiness of optional numbers: \<open>None\<close> and zero are false.\<close>

definition truthy_int :: "int option \<Rightarrow> bool" where
  "truthy_int v = (case v of None \<Rightarrow> False | Some i \<Rightarrow> i \<noteq> 0)"

definition truthy_float :: "real option \<Rightarrow> bool" where
  "truthy_float v = (case v of None \<Rightarrow> False | Some x \<Rightarrow> x \<noteq> 0)"

definition truthy_str :: "string option \<Rightarrow> bool" where
  "truthy_str v = (case v of None \<Rightarrow> False | Some s \<Rightarrow> s \<noteq> [])"

text \<open>\<open>int(x)\<close> on a float truncates towards zero.\<close>

definition py_int_of_float :: "real \<Rightarrow> int" where
  "py_int_of_float x = (if 0 \<le> x then \<lfloor>x\<rfloor> else \<lceil>x\<rceil>)"

text \<open>Decimal rendering of integers, as \<open>str\<close> and f-strings produce it.\<close>

definition digit_char :: "nat \<Rightarrow> char" where
  "digit_char d = char_of (48 + d)"

fun show_nat :: "nat \<Rightarrow> string" where
  "show_nat n = (if n < 10 then [digit_char n] else show_nat (n div 10) @ [digit_char (n mod 10)])"

definition show_int :: "int \<Rightarrow> string" where
  "show_int i = (if i < 0 then CHR ''-'' # show_nat (nat (- i)) else show_nat (nat i))"

section \<open>dashboard/utils/statistics.py\<close>

text \<open>
  One round of the loop in \<open>binom_cdf\<close>:
  \<^verbatim>\<open>prob *= (p / (1 - p)) * (n - i + 1) / i; cdf += prob\<close>.
\<close>

definition binom_step :: "int \<Rightarrow> real \<Rightarrow> int \<Rightarrow> real \<times> real \<Rightarrow> real \<times> real" where
  "binom_step n p i st =
     (let prob = fst st * ((p / (1 - p)) * of_int (n - i + 1) / of_int i)
      in (prob, snd st + prob))"

definition binom_cdf :: "int \<Rightarrow> int \<Rightarrow> real \<Rightarrow> real" where
  "binom_cdf k n p =
     (if k < 0 then 0
      else if k \<ge> n then 1
      else if p \<le> 0 then 1
      else if p \<ge> 1 then 0
      else (let prob = (1 - p) ^ nat n;
                st = fold (binom_step n p) [1..k] (prob, prob)
            in min (max (snd st) 0) 1))"

text \<open>
  \<open>solve_lower\<close> and \<open>solve_upper\<close>: sixty rounds of bisection on the pair \<open>(lo, hi)\<close>,
  started at \<open>(0, 1)\<close>.
\<close>

definition solve_lower_step :: "int \<Rightarrow> int \<Rightarrow> real \<Rightarrow> real \<times> real \<Rightarrow> real \<times> real" where
  "solve_lower_step successes trials alpha st =
     (let mid = (fst st + snd st) / 2;
          tail = 1 - binom_cdf (successes - 1) trials mid
      in if tail > alpha / 2 then (fst st, mid) else (mid, snd st))"

definition solve_lower :: "int \<Rightarrow> int \<Rightarrow> real \<Rightarrow> real" where
  "solve_lower successes trials alpha =
     snd ((solve_lower_step successes trials alpha ^^ 60) (0, 1))"

definition solve_upper_step :: "int \<Rightarrow> int \<Rightarrow> real \<Rightarrow> real \<times> real \<Rightarrow> real \<times> real" where
  "solve_upper_step successes trials alpha st =
     (let target = 1 - alpha / 2;
          mid = (fst st + snd st) / 2;
          cdf = binom_cdf successes trials mid
      in if cdf > target then (mid, snd st) else (fst st, mid))"

definition solve_upper :: "int \<Rightarrow> int \<Rightarrow> real \<Rightarrow> real" where
  "solve_upper successes trials alpha =
     fst ((solve_upper_step successes trials alpha ^^ 60) (0, 1))"

text \<open>
  \<open>clopper_pearson_interval(successes, trials, alpha)\<close>; \<open>x ** y\<close> on a positive
  base is \<open>x powr y\<close>. Every caller uses the default \<open>alpha = 0.05\<close>.
\<close>

definition alpha_default :: real where
  "alpha_default = 5 / 100"

definition clopper_pearson_interval :: "int \<Rightarrow> int \<Rightarrow> real \<Rightarrow> real \<times> real" where
  "clopper_pearson_interval successes trials alpha =
     (if trials \<le> 0 \<or> successes < 0 \<or> successes > trials then (0, 0)
      else if successes = 0 then
        (let lower = 0;
             upper = 1 - (alpha / 2) powr (1 / of_int trials)
         in (py_round 1 (lower * 100), py_round 1 (upper * 100)))
      else if successes = trials then
        (let lower = (alpha / 2) powr (1 / of_int trials);
             upper = 1
         in (py_round 1 (lower * 100), py_round 1 (upper * 100)))
      else
        (let lower = solve_lower successes trials alpha;
             upper = solve_upper successes trials alpha
         in (py_round 1 (lower * 100), py_round 1 (upper * 100))))"

text \<open>
  The binomial distribution as the specification words it: the probability mass
  built from \<open>(1 - p) ^ n\<close> by the recurrence, and its partial sums.
\<close>

primrec pmf_rec :: "int \<Rightarrow> real \<Rightarrow> nat \<Rightarrow> real" where
  "pmf_rec n p 0 = (1 - p) ^ nat n"
| "pmf_rec n p (Suc j) =
     pmf_rec n p j * ((p / (1 - p)) * of_int (n - int (Suc j) + 1) / of_int (int (Suc j)))"

definition cdf_sum :: "int \<Rightarrow> real \<Rightarrow> nat \<Rightarrow> real" where
  "cdf_sum n p k = (\<Sum>j\<le>k. pmf_rec n p j)"

section \<open>dashboard/services/auto_approval.py\<close>

text \<open>The dataclass \<open>VerificationResult\<close> of the platform verifier.\<close>

record verification_result =
  vr_is_valid :: bool
  vr_actual_followers :: "int option"
  vr_actual_name :: "string option"
  vr_account_age_days :: "int option"
  vr_is_verified :: bool
  vr_engagement_rate :: "real option"
  vr_recent_activity :: bool
  vr_error_message :: "string option"
  vr_confidence_score :: int

text \<open>
  The fields of an \<open>InfluencerSubmission\<close> row that the services and the notification
  feed read. Time stamps are microseconds since the epoch; users are numbered.
\<close>

record submission =
  sub_id :: int
  sub_submitted_by :: nat
  sub_created_at :: "int option"
  sub_updated_at :: "int option"
  sub_status :: string
  sub_platform :: string
  sub_channel_name :: string
  sub_url :: string
  sub_follower_count :: int
  sub_rejection_reason :: string

text \<open>
  The class attributes read from the Django settings, with the defaults of
  \<open>getattr(settings, ..., default)\<close>.
\<close>

record approval_settings =
  MIN_CONFIDENCE_SCORE :: int
  MIN_FOLLOWERS :: int
  MAX_FOLLOWER_VARIANCE :: real

definition default_settings :: approval_settings where
  "default_settings =
     \<lparr>MIN_CONFIDENCE_SCORE = 70, MIN_FOLLOWERS = 1000, MAX_FOLLOWER_VARIANCE = 3 / 10\<rparr>"

definition calculate_follower_accuracy_score :: "submission \<Rightarrow> verification_result \<Rightarrow> int" where
  "calculate_follower_accuracy_score s v =
     (if \<not> truthy_int (vr_actual_followers v) \<or> sub_follower_count s = 0 then 30
      else case vr_actual_followers v of
        None \<Rightarrow> 30
      | Some actual \<Rightarrow>
          (let submitted = sub_follower_count s in
           if actual = 0 \<or> submitted = 0 then 0
           else
             (let variance = real_of_int \<bar>actual - submitted\<bar> / real_of_int (max actual submitted) in
              if variance \<le> 5 / 100 then 100
              else if variance \<le> 10 / 100 then 80
              else if variance \<le> 20 / 100 then 60
              else if variance \<le> 30 / 100 then 40
              else if variance \<le> 50 / 100 then 20
              else 0)))"

definition calculate_account_age_score :: "verification_result \<Rightarrow> int" where
  "calculate_account_age_score v =
     (case vr_account_age_days v of
        None \<Rightarrow> 50
      | Some age_days \<Rightarrow>
          if age_days = 0 then 50
          else if age_days \<ge> 730 then 100
          else if age_days \<ge> 365 then 80
          else if age_days \<ge> 180 then 60
          else if age_days \<ge> 90 then 40
          else if age_days \<ge> 30 then 20
          else 0)"

definition calculate_engagement_score :: "verification_result \<Rightarrow> int" where
  "calculate_engagement_score v =
     (case vr_engagement_rate v of
        None \<Rightarrow> 50
      | Some rate \<Rightarrow>
          if rate = 0 then 50
          else if rate \<ge> 5 then 100
          else if rate \<ge> 3 then 80
          else if rate \<ge> 15 / 10 then 60
          else if rate \<ge> 5 / 10 then 40
          else 20)"

definition is_suspicious_url :: "string \<Rightarrow> bool" where
  "is_suspicious_url url =
     list_ex (\<lambda>indicator. py_in indicator (py_lower url))
       [''bit.ly'', ''tinyurl'', ''goo.gl'', ''suspicious-domain'']"

definition has_naming_inconsistencies :: "submission \<Rightarrow> verification_result \<Rightarrow> bool" where
  "has_naming_inconsistencies s v =
     (case vr_actual_name v of
        None \<Rightarrow> False
      | Some actual_name \<Rightarrow>
          if actual_name = [] \<or> sub_channel_name s = [] then False
          else
            (let actual_lower = py_lower actual_name;
                 submitted_lower = py_lower (sub_channel_name s)
             in \<not> (py_in actual_lower submitted_lower \<or> py_in submitted_lower actual_lower)))"

text \<open>
  The query of \<open>_apply_risk_penalties\<close>: the submissions of the same submitter created in
  the last seven days, counted over the table \<open>db\<close> at the time \<open>now\<close>.
\<close>

definition seven_days :: int where
  "seven_days = 7 * 86400 * 1000000"

definition recent_submissions_count :: "submission list \<Rightarrow> int \<Rightarrow> submission \<Rightarrow> nat" where
  "recent_submissions_count db now s =
     length (filter (\<lambda>r. sub_submitted_by r = sub_submitted_by s \<and>
                          (case sub_created_at r of None \<Rightarrow> False
                           | Some t \<Rightarrow> t \<ge> now - seven_days)) db)"

definition apply_risk_penalties ::
  "submission list \<Rightarrow> int \<Rightarrow> submission \<Rightarrow> verification_result \<Rightarrow> real \<Rightarrow> real" where
  "apply_risk_penalties db now s v base_score =
     (let p1 = (if recent_submissions_count db now s > 3 then 20 else 0);
          p2 = p1 + (if is_suspicious_url (sub_url s) then 15 else 0);
          p3 = p2 + (if has_naming_inconsistencies s v then 10 else 0);
          penalties = p3 + (if \<not> vr_is_valid v then 30 else 0)
      in max (base_score - penalties) 0)"

definition calculate_approval_score ::
  "submission list \<Rightarrow> int \<Rightarrow> submission \<Rightarrow> verification_result \<Rightarrow> int" where
  "calculate_approval_score db now s v =
     (let verification_score = (if vr_is_valid v then vr_confidence_score v else 0);
          follower_score = calculate_follower_accuracy_score s v;
          age_score = calculate_account_age_score v;
          platform_verification_score = (if vr_is_verified v then 100 else 50);
          engagement_score = calculate_engagement_score v;
          total_score =
            real_of_int verification_score * (4 / 10)
            + real_of_int follower_score * (25 / 100)
            + real_of_int age_score * (15 / 100)
            + real_of_int platform_verification_score * (1 / 10)
            + real_of_int engagement_score * (1 / 10);
          total_score = apply_risk_penalties db now s v total_score
      in min (py_int_of_float total_score) 100)"

definition platform_check :: "string \<Rightarrow> verification_result \<Rightarrow> bool option" where
  "platform_check platform v =
     (if platform = ''Twitter'' then Some (vr_confidence_score v \<ge> 60)
      else if platform = ''Telegram'' then Some (vr_confidence_score v \<ge> 50)
      else if platform = ''YouTube'' then Some (vr_confidence_score v \<ge> 65)
      else if platform = ''TikTok'' then Some (vr_confidence_score v \<ge> 60)
      else None)"

definition should_auto_approve ::
  "approval_settings \<Rightarrow> submission \<Rightarrow> verification_result \<Rightarrow> int \<Rightarrow> bool" where
  "should_auto_approve cfg s v approval_score =
     (if \<not> vr_is_valid v then False
      else if approval_score < MIN_CONFIDENCE_SCORE cfg then False
      else if (case vr_actual_followers v of
                 None \<Rightarrow> False
               | Some a \<Rightarrow> a \<noteq> 0 \<and> a < MIN_FOLLOWERS cfg) then False
      else if (case vr_actual_followers v of
                 None \<Rightarrow> False
               | Some a \<Rightarrow>
                   a \<noteq> 0 \<and> sub_follower_count s \<noteq> 0 \<and> sub_follower_count s > 0 \<and>
                   real_of_int \<bar>a - sub_follower_count s\<bar> / real_of_int (sub_follower_count s)
                     > MAX_FOLLOWER_VARIANCE cfg) then False
      else if platform_check (sub_platform s) v = Some False then False
      else True)"

section \<open>influencers/models.py\<close>

record influencer =
  inf_id :: int
  inf_channel_name :: "string option"
  inf_url :: "string option"
  inf_platform :: "string option"
  inf_author_name :: "string option"
  inf_follower_count :: int

record asset =
  as_symbol :: string
  as_asset_type :: "string option"

text \<open>
  The columns of \<open>TradeCall\<close> that the modelled code reads. \<open>tc_influencer\<close> is the
  foreign key, \<open>tc_asset\<close> the joined asset row.
\<close>

record trade_call =
  tc_id :: int
  tc_timestamp :: "int option"
  tc_signal :: "string option"
  tc_assumed_entry_price :: "real option"
  tc_stoploss_price :: "real option"
  tc_target_first :: "real option"
  tc_status :: "string option"
  tc_asset :: "asset option"
  tc_influencer :: "int option"
  tc_stoploss_hit :: "bool option"
  tc_target_hit :: "bool option"

text \<open>
  The tables: \<open>NotificationRead\<close> and \<open>Watchlist\<close> as pairs of a user and a
  notification id or an influencer id.
\<close>

record database =
  db_influencers :: "influencer list"
  db_trade_calls :: "trade_call list"
  db_submissions :: "submission list"
  db_watchlist :: "(nat \<times> int) list"
  db_reads :: "(nat \<times> string) list"

section \<open>dashboard/services/auto_approval_enhanced.py\<close>

text \<open>
  The values a payload entry can hold, and the builtin \<open>float(value)\<close>, which is a
  parameter \<open>to_float\<close> of the model: it returns a float or raises. A key that is
  missing and a key that holds \<open>None\<close> are both \<open>None\<close> of the option type.
\<close>

datatype py_float = Finite real | NaN | Infinity

datatype py_exc = ValueError | TypeError | OverflowError

datatype py_value = PyNone | PyBool bool | PyInt int | PyFloat py_float | PyStr string

definition py_truthy :: "py_value \<Rightarrow> bool" where
  "py_truthy v =
     (case v of
        PyNone \<Rightarrow> False
      | PyBool b \<Rightarrow> b
      | PyInt i \<Rightarrow> i \<noteq> 0
      | PyFloat f \<Rightarrow> (case f of Finite x \<Rightarrow> x \<noteq> 0 | NaN \<Rightarrow> True | Infinity \<Rightarrow> True)
      | PyStr s \<Rightarrow> s \<noteq> [])"

definition get_value :: "py_value option \<Rightarrow> py_value" where
  "get_value v = (case v of None \<Rightarrow> PyNone | Some x \<Rightarrow> x)"

definition get_str :: "string option \<Rightarrow> string" where
  "get_str v = (case v of None \<Rightarrow> [] | Some s \<Rightarrow> s)"

text \<open>
  \<open>_coerce_int\<close>: \<open>ValueError\<close> and \<open>TypeError\<close> give 0; an \<open>OverflowError\<close> of
  \<open>float\<close> or of \<open>int\<close> on an infinity is not caught here.
\<close>

definition coerce_int :: "(py_value \<Rightarrow> py_exc + py_float) \<Rightarrow> py_value \<Rightarrow> py_exc + int" where
  "coerce_int to_float v =
     (if v = PyNone \<or> v = PyStr [] then Inr 0
      else case v of
        PyBool b \<Rightarrow> Inr (if b then 1 else 0)
      | _ \<Rightarrow>
          (case to_float v of
             Inl OverflowError \<Rightarrow> Inl OverflowError
           | Inl _ \<Rightarrow> Inr 0
           | Inr (Finite x) \<Rightarrow> Inr (py_int_of_float x)
           | Inr NaN \<Rightarrow> Inr 0
           | Inr Infinity \<Rightarrow> Inl OverflowError))"

record submission_payload =
  p_platform :: "string option"
  p_url :: "string option"
  p_username :: "string option"
  p_submitted_by :: "nat option"
  p_category :: "string option"
  p_channel_name :: "string option"
  p_display_name :: "string option"
  p_bio :: "string option"
  p_followers :: "py_value option"
  p_following :: "py_value option"
  p_posts_count :: "py_value option"
  p_verified :: "py_value option"
  p_avatar_url :: "string option"
  p_description :: "string option"
  p_author_name :: "string option"
  p_ip_address :: "string option"
  p_user_agent :: "string option"
  p_categories :: "string list option"
  p_follower_count_manual :: "py_value option"
  p_mock_data :: "py_value option"
  p_verification_error :: "string option"

text \<open>The keyword arguments of \<open>InfluencerSubmission.objects.create\<close>.\<close>

record new_submission =
  ns_submitted_by :: nat
  ns_platform :: string
  ns_channel_name :: string
  ns_author_name :: string
  ns_url :: string
  ns_follower_count :: int
  ns_category :: string
  ns_categories :: "string list"
  ns_description :: string
  ns_username :: string
  ns_display_name :: string
  ns_bio :: string
  ns_following :: int
  ns_posts_count :: int
  ns_verified :: bool
  ns_avatar_url :: string
  ns_meets_criteria :: bool
  ns_mock_data :: py_value
  ns_ip_address :: "string option"
  ns_user_agent :: string
  ns_status :: string
  ns_auto_approved :: bool
  ns_approval_score :: real
  ns_rejection_reason :: string

record approval_result =
  ar_approved :: bool
  ar_reason :: string

definition SUPPORTED_PLATFORMS :: "string list" where
  "SUPPORTED_PLATFORMS = [''tiktok'', ''twitter'', ''youtube'', ''telegram'']"

text \<open>
  \<open>_check_platform_criteria\<close>; \<open>min_followers\<close> is \<open>MIN_SUBMISSION_FOLLOWERS\<close>
  (setting \<open>SUBMISSION_MIN_FOLLOWERS\<close>, default 1000) and \<open>min_posts\<close> is 0.
\<close>

definition check_platform_criteria :: "int \<Rightarrow> string \<Rightarrow> int \<Rightarrow> int \<Rightarrow> approval_result" where
  "check_platform_criteria min_followers platform followers posts_count =
     (if platform \<notin> set SUPPORTED_PLATFORMS then
        \<lparr>ar_approved = False,
         ar_reason = ''No criteria defined for platform '' @ [CHR 0x27] @ platform @ [CHR 0x27]\<rparr>
      else if followers < min_followers then
        \<lparr>ar_approved = False,
         ar_reason = ''Requires at least '' @ show_int min_followers @ '' followers (found ''
                       @ show_int followers @ '')''\<rparr>
      else if posts_count < 0 then
        \<lparr>ar_approved = False,
         ar_reason = ''Insufficient posts: '' @ show_int posts_count @ '' < '' @ show_int 0\<rparr>
      else \<lparr>ar_approved = True, ar_reason = ''All auto-approval criteria met''\<rparr>)"

definition calculate_score :: "string \<Rightarrow> int \<Rightarrow> int \<Rightarrow> bool \<Rightarrow> real" where
  "calculate_score platform followers posts_count verified =
     (let score = 50 *
            (if platform = ''youtube'' then 12 / 10
             else if platform = ''twitter'' then 11 / 10
             else 1);
          score = score +
            (if followers \<ge> 100000 then 30
             else if followers \<ge> 50000 then 20
             else if followers \<ge> 25000 then 15
             else if followers \<ge> 10000 then 10
             else 0);
          score = score + (if verified then 10 else 0);
          score = score +
            (if posts_count \<ge> 100 then 10
             else if posts_count \<ge> 50 then 5
             else 0)
      in min score 100)"

text \<open>
  \<open>_add_to_influencer_database\<close> on the influencer table: the row with the same URL if
  there is one, a new row otherwise.
\<close>

definition fresh_influencer_id :: "influencer list \<Rightarrow> int" where
  "fresh_influencer_id tbl = fold max (map inf_id tbl) 0 + 1"

definition add_to_influencer_database ::
  "influencer list \<Rightarrow> new_submission \<Rightarrow> int option \<times> influencer list" where
  "add_to_influencer_database tbl row =
     (case find (\<lambda>i. inf_url i = Some (ns_url row)) tbl of
        Some existing \<Rightarrow> (Some (inf_id existing), tbl)
      | None \<Rightarrow>
          (let new = \<lparr>inf_id = fresh_influencer_id tbl,
                       inf_channel_name = Some (ns_channel_name row),
                       inf_url = Some (ns_url row),
                       inf_platform = Some (ns_platform row),
                       inf_author_name = Some (ns_author_name row),
                       inf_follower_count = ns_follower_count row\<rparr>
           in (Some (inf_id new), tbl @ [new])))"

record process_response =
  r_auto_approved :: bool
  r_submission_id :: int
  r_approval_score :: real
  r_status :: string
  r_message :: string
  r_reason :: string
  r_influencer_id :: "int option"

datatype process_result = Failure string | Success process_response

text \<open>
  \<open>process_submission(submission_data)\<close>, in three parts. First the decision of lines
  84 to 114: the approval result, the status and the rejection reason, from the coerced
  follower and post counts and the mock-data flag.
\<close>

definition decide_status ::
  "int \<Rightarrow> submission_payload \<Rightarrow> string \<Rightarrow> int \<Rightarrow> int \<Rightarrow> approval_result \<times> string \<times> string" where
  "decide_status min_followers d platform followers posts_count =
     (let is_mock_data = (case p_mock_data d of None \<Rightarrow> False | Some v \<Rightarrow> py_truthy v);
          verification_confident = (followers > 0 \<and> \<not> is_mock_data);
          approval =
            (if \<not> verification_confident then
               \<lparr>ar_approved = False,
                ar_reason =
                  (if is_mock_data \<and> followers = 0 then
                     (case p_verification_error d of
                        None \<Rightarrow> ''Unable to verify profile - no recent activity detected''
                      | Some e \<Rightarrow> e)
                   else if is_mock_data then
                     ''Profile verification failed - submission queued for manual review''
                   else
                     ''Unable to verify follower count - submission queued for manual review'')\<rparr>
             else check_platform_criteria min_followers platform followers posts_count);
          status =
            (if \<not> verification_confident then ''pending''
             else if ar_approved approval then ''approved'' else ''rejected'');
          rejection_reason =
            (if status = ''rejected'' then ar_reason approval
             else if status = ''pending'' then ar_reason approval
             else [])
      in (approval, status, rejection_reason))"

text \<open>The row handed to \<open>InfluencerSubmission.objects.create\<close>.\<close>

definition build_row ::
  "int \<Rightarrow> submission_payload \<Rightarrow> nat \<Rightarrow> string \<Rightarrow> string \<Rightarrow> int \<Rightarrow> int \<Rightarrow> int \<Rightarrow> new_submission" where
  "build_row min_followers d submitted_by platform channel_name followers following posts_count =
     (let decision = decide_status min_followers d platform followers posts_count;
          approval = fst decision;
          verified = (case p_verified d of None \<Rightarrow> False | Some v \<Rightarrow> py_truthy v)
      in \<lparr>ns_submitted_by = submitted_by,
          ns_platform = platform,
          ns_channel_name = channel_name,
          ns_author_name = get_str (p_author_name d),
          ns_url = get_str (p_url d),
          ns_follower_count = followers,
          ns_category = get_str (p_category d),
          ns_categories = (case p_categories d of None \<Rightarrow> [] | Some cs \<Rightarrow> cs),
          ns_description = get_str (p_description d),
          ns_username = get_str (p_username d),
          ns_display_name =
            (if truthy_str (p_display_name d) then get_str (p_display_name d) else channel_name),
          ns_bio = get_str (p_bio d),
          ns_following = following,
          ns_posts_count = posts_count,
          ns_verified = verified,
          ns_avatar_url = get_str (p_avatar_url d),
          ns_meets_criteria = ar_approved approval,
          ns_mock_data = (case p_mock_data d of None \<Rightarrow> PyBool False | Some v \<Rightarrow> v),
          ns_ip_address = p_ip_address d,
          ns_user_agent = get_str (p_user_agent d),
          ns_status = fst (snd decision),
          ns_auto_approved = ar_approved approval,
          ns_approval_score = calculate_score platform followers posts_count verified,
          ns_rejection_reason = snd (snd decision)\<rparr>)"

text \<open>
  The whole function. The result is the returned dictionary, the row when it was
  created, and the influencer table. \<open>db_create\<close> stands for the database: the new
  row's id, or \<open>None\<close> when creating the row raises.
\<close>

definition process_submission ::
  "int \<Rightarrow> (py_value \<Rightarrow> py_exc + py_float) \<Rightarrow> (new_submission \<Rightarrow> int option)
     \<Rightarrow> influencer list \<Rightarrow> submission_payload
     \<Rightarrow> process_result \<times> new_submission option \<times> influencer list" where
  "process_submission min_followers to_float db_create tbl d =
     (let platform = py_lower (get_str (p_platform d));
          username = get_str (p_username d);
          channel_name =
            (if truthy_str (p_channel_name d) then get_str (p_channel_name d)
             else if truthy_str (p_display_name d) then get_str (p_display_name d)
             else username)
      in
      if p_submitted_by d = None then
        (Failure ''Authenticated user is required for submissions.'', None, tbl)
      else if \<not> truthy_str (p_url d) \<or> channel_name = [] \<or> \<not> truthy_str (p_category d) then
        (Failure ''Channel name, category, and URL are required.'', None, tbl)
      else if platform \<notin> set SUPPORTED_PLATFORMS then
        (Failure (''Platform '' @ [CHR 0x27] @ platform @ [CHR 0x27]
                   @ '' is not supported for auto-approval''), None, tbl)
      else
        (case (p_submitted_by d,
               coerce_int to_float (get_value (p_followers d)),
               coerce_int to_float (get_value (p_following d)),
               coerce_int to_float (get_value (p_posts_count d)),
               coerce_int to_float (get_value (p_follower_count_manual d))) of
           (Some submitted_by, Inr followers, Inr following, Inr posts_count, Inr manual) \<Rightarrow>
             (let row = build_row min_followers d submitted_by platform channel_name
                          followers following posts_count;
                  status = ns_status row;
                  rejection_reason = ns_rejection_reason row
              in
              (case db_create row of
                 None \<Rightarrow> (Failure ''Database error'', None, tbl)
               | Some new_id \<Rightarrow>
                   (let added = (if status = ''approved'' then add_to_influencer_database tbl row
                                 else (None, tbl));
                        message =
                          (if status = ''approved'' then ''Automatically approved!''
                           else if rejection_reason \<noteq> [] then rejection_reason
                           else ''Submitted for manual review.'')
                    in (Success \<lparr>r_auto_approved = ns_auto_approved row,
                                  r_submission_id = new_id,
                                  r_approval_score = ns_approval_score row,
                                  r_status = status,
                                  r_message = message,
                                  r_reason = rejection_reason,
                                  r_influencer_id = fst added\<rparr>,
                        Some row, snd added))))
         | _ \<Rightarrow> (Failure ''Error processing submission'', None, tbl)))"

section \<open>dashboard/services/notifications.py\<close>

record notification =
  n_id :: string
  n_type :: string
  n_icon :: string
  n_title :: string
  n_message :: string
  n_timestamp :: int
  n_time :: string
  n_unread :: bool
  n_category :: string

definition second :: int where
  "second = 1000000"

definition hours_24 :: int where
  "hours_24 = 24 * 3600 * second"

text \<open>\<open>_format_time_ago\<close> on a time stamp that is present.\<close>

definition format_time_ago :: "int \<Rightarrow> int \<Rightarrow> string" where
  "format_time_ago timestamp now =
     (let diff = now - timestamp in
      if diff < 60 * second then ''Just now''
      else if diff < 3600 * second then show_int (diff div (60 * second)) @ ''m ago''
      else if diff < 86400 * second then show_int (diff div (3600 * second)) @ ''h ago''
      else show_int (diff div (86400 * second)) @ ''d ago'')"

definition is_true :: "bool option \<Rightarrow> bool" where
  "is_true b = (b = Some True)"

definition influencer_of :: "database \<Rightarrow> trade_call \<Rightarrow> influencer option" where
  "influencer_of db call =
     (case tc_influencer call of
        None \<Rightarrow> None
      | Some i \<Rightarrow> find (\<lambda>r. inf_id r = i) (db_influencers db))"

definition str_or_None :: "string option \<Rightarrow> string" where
  "str_or_None v = (case v of None \<Rightarrow> ''None'' | Some s \<Rightarrow> s)"

text \<open>The body of the loop over the trade calls.\<close>

definition call_notification :: "database \<Rightarrow> int \<Rightarrow> string set \<Rightarrow> trade_call \<Rightarrow> notification" where
  "call_notification db now read_notification_ids call =
     (let unread_threshold = now - hours_24;
          ts = (case tc_timestamp call of None \<Rightarrow> now | Some t \<Rightarrow> t);
          influencer_name =
            (case influencer_of db call of
               None \<Rightarrow> ''Unknown influencer''
             | Some i \<Rightarrow> str_or_None (inf_channel_name i));
          asset_symbol = (case tc_asset call of None \<Rightarrow> ''Asset'' | Some a \<Rightarrow> as_symbol a);
          status = (if is_true (tc_target_hit call) then ''target hit''
                    else if is_true (tc_stoploss_hit call) then ''stopped'' else ''active'');
          notif_type = (if is_true (tc_target_hit call) then ''success''
                        else if is_true (tc_stoploss_hit call) then ''danger'' else ''info'');
          title = influencer_name @ '' '' @
                    (if is_true (tc_target_hit call) then ''hit target'' else ''shared a call'');
          message = asset_symbol @ '' signal is '' @ status @ ''.'';
          notification_id = ''call-'' @ show_int (tc_id call);
          is_unread = (ts \<ge> unread_threshold \<and> notification_id \<notin> read_notification_ids)
      in \<lparr>n_id = notification_id, n_type = notif_type, n_icon = ''fa-chart-line'',
          n_title = title, n_message = message, n_timestamp = ts,
          n_time = format_time_ago ts now, n_unread = is_unread, n_category = ''signals''\<rparr>)"

text \<open>The body of the loop over the user's submissions.\<close>

definition submission_notification :: "int \<Rightarrow> string set \<Rightarrow> submission \<Rightarrow> notification" where
  "submission_notification now read_notification_ids s =
     (let unread_threshold = now - hours_24;
          ts = (case sub_updated_at s of
                  Some t \<Rightarrow> t
                | None \<Rightarrow> (case sub_created_at s of Some t \<Rightarrow> t | None \<Rightarrow> now));
          status = sub_status s;
          notif_type = (if status = ''approved'' then ''success''
                        else if status = ''rejected'' then ''danger'' else ''warning'');
          icon = (if status = ''approved'' then ''fa-check-circle''
                  else if status = ''rejected'' then ''fa-times-circle'' else ''fa-hourglass-half'');
          title = (if status = ''approved'' then sub_channel_name s @ '' approved''
                   else if status = ''rejected'' then sub_channel_name s @ '' rejected''
                   else sub_channel_name s @ '' pending review'');
          message = (if status = ''approved'' then ''Your submission has been approved.''
                     else if status = ''rejected'' then
                       (if sub_rejection_reason s \<noteq> [] then sub_rejection_reason s
                        else ''Your submission was rejected.'')
                     else ''We'' @ [CHR 0x27] @ ''re still reviewing this submission.'');
          notification_id = ''submission-'' @ show_int (sub_id s);
          is_unread = ((ts \<ge> unread_threshold \<and> (status = ''approved'' \<or> status = ''rejected''))
                        \<and> notification_id \<notin> read_notification_ids)
      in \<lparr>n_id = notification_id, n_type = notif_type, n_icon = icon,
          n_title = title, n_message = message, n_timestamp = ts,
          n_time = format_time_ago ts now, n_unread = is_unread, n_category = ''submissions''\<rparr>)"

text \<open>
  The queries. \<open>order_by('-timestamp')\<close> is a stable descending sort of the table, rows
  without a time stamp first.
\<close>

definition order_desc :: "('a \<Rightarrow> int option) \<Rightarrow> 'a list \<Rightarrow> 'a list" where
  "order_desc key rows =
     filter (\<lambda>r. key r = None) rows
       @ sort_key (\<lambda>r. case key r of None \<Rightarrow> 0 | Some t \<Rightarrow> - t) (filter (\<lambda>r. key r \<noteq> None) rows)"

definition read_notification_ids :: "database \<Rightarrow> nat \<Rightarrow> string set" where
  "read_notification_ids db user = set (map snd (filter (\<lambda>r. fst r = user) (db_reads db)))"

definition watchlist_influencer_ids :: "database \<Rightarrow> nat \<Rightarrow> int list" where
  "watchlist_influencer_ids db user = map snd (filter (\<lambda>r. fst r = user) (db_watchlist db))"

definition watched_trade_calls :: "database \<Rightarrow> nat \<Rightarrow> nat \<Rightarrow> trade_call list" where
  "watched_trade_calls db user limit =
     take limit (order_desc tc_timestamp
       (filter (\<lambda>c. tc_status c = Some ''True'' \<and>
                     (case tc_influencer c of
                        None \<Rightarrow> False
                      | Some i \<Rightarrow> i \<in> set (watchlist_influencer_ids db user)))
          (db_trade_calls db)))"

definition user_submissions :: "database \<Rightarrow> nat \<Rightarrow> nat \<Rightarrow> submission list" where
  "user_submissions db user limit =
     take limit (order_desc sub_updated_at
       (filter (\<lambda>s. sub_submitted_by s = user) (db_submissions db)))"

text \<open>
  \<open>build_user_notifications(user, limit)\<close> at the time \<open>now\<close>. The final conversion of
  the time stamps to ISO strings is left out.
\<close>

definition build_user_notifications :: "database \<Rightarrow> int \<Rightarrow> nat \<Rightarrow> nat \<Rightarrow> notification list" where
  "build_user_notifications db now user limit =
     (let read_ids = read_notification_ids db user;
          call_items =
            (if watchlist_influencer_ids db user = [] then []
             else map (call_notification db now read_ids) (watched_trade_calls db user limit));
          submission_items = map (submission_notification now read_ids) (user_submissions db user limit);
          notifications = call_items @ submission_items
      in take limit (sort_key (\<lambda>item. - n_timestamp item) notifications))"

section \<open>dashboard/api_views.py\<close>

text \<open>
  \<open>mark_notification_read_api\<close>: \<open>get_or_create\<close> of the read record of the user for
  the given notification id; an empty id is refused.
\<close>

definition mark_notification_read :: "database \<Rightarrow> nat \<Rightarrow> string \<Rightarrow> database" where
  "mark_notification_read db user notification_id =
     (if notification_id = [] then db
      else if (user, notification_id) \<in> set (db_reads db) then db
      else db\<lparr>db_reads := db_reads db @ [(user, notification_id)]\<rparr>)"

section \<open>authentication/telegram_auth.py\<close>








section \<open>dashboard/constants.py\<close>

definition SUPPORTED_SEARCH_PLATFORMS :: "(string \<times> string) list" where
  "SUPPORTED_SEARCH_PLATFORMS =
     [(''Telegram'', ''Telegram''), (''Twitter'', ''X (Twitter)''),
      (''YouTube'', ''YouTube''), (''TikTok'', ''TikTok'')]"

definition SUPPORTED_SEARCH_CATEGORIES :: "(string \<times> string) list" where
  "SUPPORTED_SEARCH_CATEGORIES =
     [(''crypto'', ''Crypto''), (''stocks'', ''Stocks''), (''forex'', ''Forex'')]"

definition SUPPORTED_PLATFORM_VALUES :: "string set" where
  "SUPPORTED_PLATFORM_VALUES = set (map fst SUPPORTED_SEARCH_PLATFORMS)"

definition SUPPORTED_CATEGORY_VALUES :: "string set" where
  "SUPPORTED_CATEGORY_VALUES = set (map fst SUPPORTED_SEARCH_CATEGORIES)"

section \<open>dashboard/services/search_service.py\<close>

text \<open>The local variables of \<open>perform_influencer_search\<close> after lines 46 to 57.\<close>

record search_args =
  sa_query :: string
  sa_platform :: string
  sa_category :: string
  sa_sort_by :: string
  sa_page :: int
  sa_page_size :: int

definition int_or :: "int option \<Rightarrow> int \<Rightarrow> int" where
  "int_or v d = (case v of None \<Rightarrow> d | Some i \<Rightarrow> if i = 0 then d else i)"

definition sanitize_search_args ::
  "string option \<Rightarrow> string option \<Rightarrow> string option \<Rightarrow> string \<Rightarrow> int option \<Rightarrow> int option
     \<Rightarrow> search_args" where
  "sanitize_search_args query platform category sort_by page page_size =
     (let query = py_strip (get_str query);
          platform = py_strip (get_str platform);
          category = py_lower (py_strip (get_str category));
          sort_by = (if sort_by \<in> {''relevance'', ''accuracy'', ''calls'', ''name''} then sort_by
                     else ''relevance'');
          platform = (if platform \<notin> SUPPORTED_PLATFORM_VALUES then [] else platform);
          category = (if category \<notin> SUPPORTED_CATEGORY_VALUES then [] else category);
          page = max 1 (int_or page 1);
          page_size = max 6 (min 30 (int_or page_size 12))
      in \<lparr>sa_query = query, sa_platform = platform, sa_category = category,
          sa_sort_by = sort_by, sa_page = page, sa_page_size = page_size\<rparr>)"

definition icontains :: "string \<Rightarrow> string option \<Rightarrow> bool" where
  "icontains needle field =
     (case field of None \<Rightarrow> False | Some f \<Rightarrow> py_in (py_lower needle) (py_lower f))"

definition calls_of :: "database \<Rightarrow> influencer \<Rightarrow> trade_call list" where
  "calls_of db i =
     filter (\<lambda>c. tc_influencer c = Some (inf_id i) \<and> tc_status c = Some ''True'') (db_trade_calls db)"

definition total_calls :: "database \<Rightarrow> influencer \<Rightarrow> nat" where
  "total_calls db i = length (calls_of db i)"

definition successful_calls :: "database \<Rightarrow> influencer \<Rightarrow> nat" where
  "successful_calls db i = length (filter (\<lambda>c. tc_target_hit c = Some True) (calls_of db i))"

definition failed_calls :: "database \<Rightarrow> influencer \<Rightarrow> nat" where
  "failed_calls db i = length (filter (\<lambda>c. tc_stoploss_hit c = Some True) (calls_of db i))"

text \<open>The query set of lines 59 to 78, cut at 300 candidates.\<close>

definition search_candidates :: "database \<Rightarrow> search_args \<Rightarrow> influencer list" where
  "search_candidates db a =
     (let qs = db_influencers db;
          qs = (if sa_query a \<noteq> [] then
                  filter (\<lambda>i. icontains (sa_query a) (inf_channel_name i) \<or>
                               icontains (sa_query a) (inf_author_name i) \<or>
                               icontains (sa_query a) (inf_url i)) qs
                else qs);
          qs = (if sa_platform a \<noteq> [] then
                  filter (\<lambda>i. icontains (sa_platform a) (inf_platform i)) qs
                else qs);
          qs = filter (\<lambda>i. total_calls db i > 0) qs
      in take 300 qs)"

text \<open>\<open>_infer_category\<close>.\<close>

definition asset_category :: "trade_call \<Rightarrow> string" where
  "asset_category call =
     (let asset_type =
            (case tc_asset call of
               None \<Rightarrow> []
             | Some a \<Rightarrow> (case as_asset_type a of None \<Rightarrow> [] | Some t \<Rightarrow> py_lower t))
      in if py_in ''stock'' asset_type \<or> py_in ''equity'' asset_type then ''stocks''
         else if py_in ''forex'' asset_type \<or> py_in ''currency'' asset_type
                 \<or> py_in ''fx'' asset_type then ''forex''
         else if py_in ''commodit'' asset_type \<or> py_in ''gold'' asset_type
                 \<or> py_in ''oil'' asset_type then ''commodities''
         else ''crypto'')"

fun first_max :: "(string \<times> nat) \<Rightarrow> (string \<times> nat) list \<Rightarrow> string \<times> nat" where
  "first_max best [] = best"
| "first_max best (x # xs) = first_max (if snd x > snd best then x else best) xs"

definition py_upper_char :: "char \<Rightarrow> char" where
  "py_upper_char c =
     (let n = (of_char c :: nat) in if 97 \<le> n \<and> n \<le> 122 then char_of (n - 32) else c)"

definition py_capitalize :: "string \<Rightarrow> string" where
  "py_capitalize s = (case s of [] \<Rightarrow> [] | c # cs \<Rightarrow> py_upper_char c # py_lower cs)"

definition infer_category :: "database \<Rightarrow> influencer \<Rightarrow> string" where
  "infer_category db i =
     (let trade_calls = take 20 (filter (\<lambda>c. tc_asset c \<noteq> None) (calls_of db i));
          count = (\<lambda>k. length (filter (\<lambda>c. asset_category c = k) trade_calls));
          max_category =
            first_max (''crypto'', count ''crypto'')
              [(''stocks'', count ''stocks''), (''forex'', count ''forex''),
               (''commodities'', count ''commodities'')]
      in if snd max_category = 0 then ''Crypto'' else py_capitalize (fst max_category))"

record search_result =
  sr_id :: int
  sr_channel_name :: string
  sr_author_name :: "string option"
  sr_platform :: string
  sr_url :: "string option"
  sr_total_calls :: nat
  sr_successful_calls :: nat
  sr_failed_calls :: nat
  sr_resolved_calls :: nat
  sr_accuracy :: real
  sr_category :: string
  sr_ci_low :: real
  sr_ci_high :: real

definition search_result_of :: "database \<Rightarrow> influencer \<Rightarrow> search_result" where
  "search_result_of db i =
     (let successful = successful_calls db i;
          failed = failed_calls db i;
          resolved = successful + failed;
          accuracy = (if resolved > 0 then py_round 1 (real successful / real resolved * 100) else 0);
          ci = (if resolved > 0
                then clopper_pearson_interval (int successful) (int resolved) alpha_default
                else (0, 0))
      in \<lparr>sr_id = inf_id i,
          sr_channel_name =
            (if truthy_str (inf_channel_name i) then get_str (inf_channel_name i)
             else if truthy_str (inf_author_name i) then get_str (inf_author_name i)
             else ''Unknown''),
          sr_author_name = inf_author_name i,
          sr_platform =
            (if truthy_str (inf_platform i) then get_str (inf_platform i) else ''Unknown''),
          sr_url = inf_url i,
          sr_total_calls = total_calls db i,
          sr_successful_calls = successful,
          sr_failed_calls = failed,
          sr_resolved_calls = resolved,
          sr_accuracy = accuracy,
          sr_category = infer_category db i,
          sr_ci_low = fst ci,
          sr_ci_high = snd ci\<rparr>)"

text \<open>
  \<open>list.sort(key, reverse=True)\<close> is the stable sort on the negated key.
\<close>

definition sort_results :: "search_args \<Rightarrow> search_result list \<Rightarrow> search_result list" where
  "sort_results a results =
     (let by_accuracy = sort_key (\<lambda>x. (- sr_accuracy x, - int (sr_total_calls x)));
          by_calls = sort_key (\<lambda>x. - int (sr_total_calls x));
          by_name = sort_key (\<lambda>x. py_lower (sr_channel_name x));
          by_calls_accuracy = sort_key (\<lambda>x. (- int (sr_total_calls x), - sr_accuracy x))
      in if sa_sort_by a = ''accuracy'' then by_accuracy results
         else if sa_sort_by a = ''calls'' then by_calls results
         else if sa_sort_by a = ''name'' then by_name results
         else if sa_query a \<noteq> [] then by_accuracy results
         else by_calls_accuracy results)"

record search_payload =
  sp_results :: "search_result list"
  sp_total :: nat
  sp_page :: int
  sp_page_size :: int
  sp_total_pages :: int
  sp_has_next :: bool
  sp_has_previous :: bool
  sp_query :: string

text \<open>The function from line 59 on, on the sanitized arguments.\<close>

definition search_sanitized :: "database \<Rightarrow> search_args \<Rightarrow> search_payload" where
  "search_sanitized db a =
     (let candidates = search_candidates db a;
          results =
            filter (\<lambda>r. \<not> (sa_category a \<noteq> [] \<and> py_lower (sr_category r) \<noteq> sa_category a))
              (map (search_result_of db) candidates);
          results = sort_results a results;
          total = length results;
          page_size = sa_page_size a;
          total_pages = (if total \<noteq> 0 then \<lceil>real total / real_of_int page_size\<rceil> else 0);
          page = (if total_pages \<noteq> 0 then min (sa_page a) total_pages else 1);
          start = (if total_pages \<noteq> 0 then (page - 1) * page_size else 0);
          end = (if total_pages \<noteq> 0 then start + page_size else 0);
          page_results = (if total \<noteq> 0 then drop (nat start) (take (nat end) results) else [])
      in \<lparr>sp_results = page_results, sp_total = total, sp_page = page,
          sp_page_size = page_size, sp_total_pages = total_pages,
          sp_has_next = (page < total_pages), sp_has_previous = (page > 1),
          sp_query = sa_query a\<rparr>)"

definition perform_influencer_search ::
  "database \<Rightarrow> string option \<Rightarrow> string option \<Rightarrow> string option \<Rightarrow> string
     \<Rightarrow> int option \<Rightarrow> int option \<Rightarrow> search_payload" where
  "perform_influencer_search db query platform category sort_by page page_size =
     search_sanitized db (sanitize_search_args query platform category sort_by page page_size)"

section \<open>api/views.py\<close>

text \<open>
  \<open>simulate_returns_api\<close>. The request fields are taken after their conversion:
  the budget as a float, the period as an integer number of days.
\<close>

datatype price_level = Target real | Stoploss real

record chart_row =
  cr_date :: int
  cr_asset :: string
  cr_signal :: "string option"
  cr_entry :: real
  cr_level :: price_level
  cr_return_pct :: real
  cr_return_amount :: real
  cr_cumulative_value :: real

record simulation_results =
  res_final_value :: real
  res_total_return_amount :: real
  res_total_return_pct :: real
  res_total_calls :: nat
  res_successful_calls :: nat
  res_failed_calls :: nat
  res_success_rate :: real
  res_avg_win :: real
  res_avg_loss :: real

record simulation =
  sim_influencer :: influencer
  sim_initial_budget :: real
  sim_period_days :: int
  sim_start_date :: int
  sim_end_date :: int
  sim_results :: simulation_results
  sim_chart_data :: "chart_row list"

datatype api_response = Response_error nat string | Response_ok simulation

definition day :: int where
  "day = 86400 * second"

definition timestamp_of :: "trade_call \<Rightarrow> int" where
  "timestamp_of c = (case tc_timestamp c of None \<Rightarrow> 0 | Some t \<Rightarrow> t)"

text \<open>The query set \<open>historical_calls\<close>: the resolved calls of the influencer in the period.\<close>

definition historical_calls :: "database \<Rightarrow> influencer \<Rightarrow> int \<Rightarrow> int \<Rightarrow> trade_call list" where
  "historical_calls db i start_date end_date =
     filter (\<lambda>c. tc_influencer c = Some (inf_id i) \<and>
                  (case tc_timestamp c of
                     None \<Rightarrow> False
                   | Some t \<Rightarrow> start_date \<le> t \<and> t \<le> end_date) \<and>
                  tc_status c = Some ''True'' \<and>
                  tc_target_hit c \<noteq> None)
       (db_trade_calls db)"

definition per_call_budget :: "real \<Rightarrow> nat \<Rightarrow> real" where
  "per_call_budget budget n = budget / real n"

text \<open>The conditions of the two branches of the loop body.\<close>

definition win_branch :: "trade_call \<Rightarrow> bool" where
  "win_branch c =
     (is_true (tc_target_hit c) \<and> truthy_float (tc_assumed_entry_price c)
        \<and> truthy_float (tc_target_first c))"

definition loss_branch :: "trade_call \<Rightarrow> bool" where
  "loss_branch c =
     (is_true (tc_stoploss_hit c) \<and> truthy_float (tc_assumed_entry_price c)
        \<and> truthy_float (tc_stoploss_price c))"


definition price :: "real option \<Rightarrow> real" where
  "price v = (case v of None \<Rightarrow> 0 | Some x \<Rightarrow> x)"

definition asset_symbol :: "trade_call \<Rightarrow> string" where
  "asset_symbol c = (case tc_asset c of None \<Rightarrow> ''Unknown'' | Some a \<Rightarrow> as_symbol a)"

text \<open>
  One round of the loop; the state is \<open>cumulative_value\<close> and \<open>returns_data\<close>.
\<close>

definition simulate_step :: "real \<Rightarrow> trade_call \<Rightarrow> real \<times> chart_row list \<Rightarrow> real \<times> chart_row list" where
  "simulate_step pcb c st =
     (if win_branch c then
        (let entry = price (tc_assumed_entry_price c);
             target = price (tc_target_first c);
             return_pct = (target - entry) / entry;
             call_return = pcb * return_pct;
             cumulative_value = fst st + call_return
         in (cumulative_value,
             snd st @ [\<lparr>cr_date = timestamp_of c, cr_asset = asset_symbol c,
                        cr_signal = tc_signal c, cr_entry = entry, cr_level = Target target,
                        cr_return_pct = py_round 2 (return_pct * 100),
                        cr_return_amount = py_round 2 call_return,
                        cr_cumulative_value = py_round 2 cumulative_value\<rparr>]))
      else if loss_branch c then
        (let entry = price (tc_assumed_entry_price c);
             stoploss = price (tc_stoploss_price c);
             loss_pct = (stoploss - entry) / entry;
             call_loss = pcb * loss_pct;
             cumulative_value = fst st + call_loss
         in (cumulative_value,
             snd st @ [\<lparr>cr_date = timestamp_of c, cr_asset = asset_symbol c,
                        cr_signal = tc_signal c, cr_entry = entry, cr_level = Stoploss stoploss,
                        cr_return_pct = py_round 2 (loss_pct * 100),
                        cr_return_amount = py_round 2 call_loss,
                        cr_cumulative_value = py_round 2 cumulative_value\<rparr>]))
      else st)"

definition simulate_loop :: "real \<Rightarrow> trade_call list \<Rightarrow> real \<times> chart_row list" where
  "simulate_loop budget calls =
     fold (simulate_step (per_call_budget budget (length calls)))
       (sort_key timestamp_of calls) (budget, [])"

definition average :: "real list \<Rightarrow> real" where
  "average xs = sum_list xs / real (length xs)"

definition summary :: "real \<Rightarrow> trade_call list \<Rightarrow> real \<times> chart_row list \<Rightarrow> simulation_results" where
  "summary budget calls st =
     (let final_value = fst st;
          returns_data = snd st;
          total_return_amount = final_value - budget;
          total_return_pct = (total_return_amount / budget) * 100;
          n = length calls;
          successful = length (filter (\<lambda>c. tc_target_hit c = Some True) calls);
          failed = length (filter (\<lambda>c. tc_stoploss_hit c = Some True) calls);
          success_rate = (if n > 0 then real successful / real n * 100 else 0);
          win_returns = filter (\<lambda>x. x > 0) (map cr_return_amount returns_data);
          avg_win = (if successful > 0 \<and> win_returns \<noteq> [] then average win_returns else 0);
          loss_returns = filter (\<lambda>x. x < 0) (map cr_return_amount returns_data);
          avg_loss = (if failed > 0 \<and> loss_returns \<noteq> [] then average loss_returns else 0)
      in \<lparr>res_final_value = py_round 2 final_value,
          res_total_return_amount = py_round 2 total_return_amount,
          res_total_return_pct = py_round 2 total_return_pct,
          res_total_calls = n,
          res_successful_calls = successful,
          res_failed_calls = failed,
          res_success_rate = py_round 1 success_rate,
          res_avg_win = py_round 2 avg_win,
          res_avg_loss = py_round 2 avg_loss\<rparr>)"

text \<open>
  The view. Dividing by a zero budget raises \<open>ZeroDivisionError\<close>, which the last
  handler turns into the response 500.
\<close>

definition simulate_for :: "database \<Rightarrow> int \<Rightarrow> influencer \<Rightarrow> real \<Rightarrow> int \<Rightarrow> api_response" where
  "simulate_for db now i budget period_days =
     (let end_date = now;
          start_date = end_date - period_days * day;
          calls = historical_calls db i start_date end_date
      in if length calls = 0 then Response_error 404 ''No historical data available for this period.''
         else if budget = 0 then Response_error 500 ''Error running simulation''
         else
           (let st = simulate_loop budget calls
            in Response_ok
                 \<lparr>sim_influencer = i, sim_initial_budget = budget, sim_period_days = period_days,
                  sim_start_date = start_date, sim_end_date = end_date,
                  sim_results = summary budget calls st,
                  sim_chart_data = snd st\<rparr>))"

definition simulate_returns_api :: "database \<Rightarrow> int \<Rightarrow> int option \<Rightarrow> real \<Rightarrow> int \<Rightarrow> api_response" where
  "simulate_returns_api db now influencer_id budget period_days =
     (if \<not> truthy_int influencer_id then Response_error 400 ''influencer_id is required.''
      else
        (case find (\<lambda>i. Some (inf_id i) = influencer_id) (db_influencers db) of
           None \<Rightarrow> Response_error 404 ''Influencer not found.''
         | Some i \<Rightarrow> simulate_for db now i budget period_days))"

section \<open>Sample data\<close>

text \<open>Concrete rows and payloads on which the theorems below are instantiated.\<close>

definition sample_submission :: submission where
  "sample_submission =
     \<lparr>sub_id = 7, sub_submitted_by = 1, sub_created_at = Some 0, sub_updated_at = Some 0,
      sub_status = ''pending'', sub_platform = ''Twitter'', sub_channel_name = ''CryptoKing'',
      sub_url = ''https://twitter.com/cryptoking'', sub_follower_count = 5000,
      sub_rejection_reason = []\<rparr>"

definition sample_verification :: verification_result where
  "sample_verification =
     \<lparr>vr_is_valid = True, vr_actual_followers = Some 5000, vr_actual_name = Some ''CryptoKing'',
      vr_account_age_days = Some 800, vr_is_verified = True, vr_engagement_rate = Some 4,
      vr_recent_activity = True, vr_error_message = None, vr_confidence_score = 80\<rparr>"

definition sample_to_float :: "py_value \<Rightarrow> py_exc + py_float" where
  "sample_to_float v =
     (case v of
        PyInt i \<Rightarrow> Inr (Finite (of_int i))
      | PyFloat f \<Rightarrow> Inr f
      | PyBool b \<Rightarrow> Inr (Finite (if b then 1 else 0))
      | PyNone \<Rightarrow> Inl TypeError
      | PyStr s \<Rightarrow> Inl ValueError)"

definition sample_payload :: submission_payload where
  "sample_payload =
     \<lparr>p_platform = Some ''Twitter'', p_url = Some ''https://twitter.com/cryptoking'',
      p_username = Some ''cryptoking'', p_submitted_by = Some 1, p_category = Some ''crypto'',
      p_channel_name = Some ''CryptoKing'', p_display_name = Some ''CryptoKing'',
      p_bio = Some [], p_followers = Some (PyInt 0), p_following = Some (PyInt 0),
      p_posts_count = Some (PyInt 0), p_verified = Some (PyBool False),
      p_avatar_url = Some [], p_description = Some [], p_author_name = Some [],
      p_ip_address = None, p_user_agent = Some [], p_categories = Some [''crypto''],
      p_follower_count_manual = None, p_mock_data = Some (PyBool True),
      p_verification_error = Some ''Verification failed''\<rparr>"

definition sample_influencer :: influencer where
  "sample_influencer =
     \<lparr>inf_id = 3, inf_channel_name = Some ''CryptoKing'',
      inf_url = Some ''https://twitter.com/cryptoking'', inf_platform = Some ''twitter'',
      inf_author_name = None, inf_follower_count = 5000\<rparr>"

definition sample_call :: trade_call where
  "sample_call =
     \<lparr>tc_id = 11, tc_timestamp = Some (100 * day), tc_signal = Some ''buy'',
      tc_assumed_entry_price = Some 100, tc_stoploss_price = Some 90,
      tc_target_first = Some 110, tc_status = Some ''True'',
      tc_asset = Some \<lparr>as_symbol = ''BTC'', as_asset_type = Some ''crypto''\<rparr>,
      tc_influencer = Some 3, tc_stoploss_hit = Some False, tc_target_hit = Some True\<rparr>"

definition approved_submission :: submission where
  "approved_submission =
     sample_submission\<lparr>sub_id := 8, sub_status := ''approved'', sub_updated_at := Some (102 * day)\<rparr>"

definition sample_db :: database where
  "sample_db =
     \<lparr>db_influencers = [sample_influencer],
      db_trade_calls = [sample_call],
      db_submissions = [sample_submission, approved_submission],
      db_watchlist = [(1, 3)],
      db_reads = []\<rparr>"

definition sample_now :: int where
  "sample_now = 102 * day + 5"

definition telegram_influencer :: influencer where
  "telegram_influencer =
     \<lparr>inf_id = 4, inf_channel_name = Some ''Whale Alerts'',
      inf_url = Some ''https://t.me/whalealerts'', inf_platform = Some ''telegram'',
      inf_author_name = None, inf_follower_count = 2000\<rparr>"

definition search_db :: database where
  "search_db =
     \<lparr>db_influencers = [sample_influencer, telegram_influencer],
      db_trade_calls = [sample_call, sample_call\<lparr>tc_id := 12, tc_influencer := Some 4\<rparr>],
      db_submissions = [],
      db_watchlist = [],
      db_reads = []\<rparr>"









section \<open>Properties of the statistics helpers\<close>

lemma py_round_upper: "py_round nd x \<le> x + 1 / (2 * 10 ^ nd)"
  unfolding py_round_def Let_def
  by (auto simp: field_simps) linarith+

lemma fold_binom_step:
  "fold (binom_step n p) [1..int k] (pmf_rec n p 0, pmf_rec n p 0) = (pmf_rec n p k, cdf_sum n p k)"
proof (induction k)
  case 0
  show ?case by (simp add: cdf_sum_def)
next
  case (Suc k)
  have "[1..int (Suc k)] = [1..int k] @ [int (Suc k)]"
    by (simp add: upto_rec2)
  then show ?case using Suc
    by (simp add: binom_step_def cdf_sum_def Let_def)
qed

text \<open>The recurrence builds the binomial probability mass function.\<close>

lemma pmf_rec_binomial:
  assumes "p \<noteq> 1" "j \<le> n"
  shows "pmf_rec (int n) p j = real (n choose j) * p ^ j * (1 - p) ^ (n - j)"
  using assms(2)
proof (induction j)
  case 0
  show ?case by simp
next
  case (Suc j)
  define q where "q = 1 - p"
  define Q where "Q = q ^ (n - Suc j)"
  define A where "A = real (n choose j)"
  define B where "B = real (n choose Suc j)"
  have IH: "pmf_rec (int n) p j = A * p ^ j * (q * Q)"
    using Suc by (simp add: q_def Q_def A_def Suc_diff_Suc flip: power_Suc)
  have ch: "B * real (Suc j) = A * real (n - j)"
    unfolding A_def B_def
    using binomial_absorb_comp[of n j] binomial_absorption[of j n]
    by (metis (no_types) mult.commute of_nat_mult)
  then have ch': "A * real (n - j) / real (Suc j) = B"
    by (simp add: field_simps)
  have np: "q \<noteq> 0" using assms(1) by (simp add: q_def)
  have nj: "of_int (int n - int (Suc j) + 1) = real (n - j)"
    using Suc.prems by simp
  have "pmf_rec (int n) p (Suc j) = A * p ^ j * (q * Q) * ((p / q) * real (n - j) / real (Suc j))"
    by (simp only: pmf_rec.simps IH nj q_def of_int_of_nat_eq)
  also have "\<dots> = (A * real (n - j) / real (Suc j)) * p ^ Suc j * Q"
    using np by simp
  also have "\<dots> = B * p ^ Suc j * Q"
    by (simp only: ch')
  finally show ?case by (simp add: B_def Q_def q_def)
qed

text \<open>
  C5, as the code has it. \<open>binom_cdf k n p\<close> is 0 when \<open>k < 0\<close>; otherwise 1 when
  \<open>k \<ge> n\<close>; otherwise 1 (not 0) when \<open>p \<le> 0\<close>; otherwise 0 when \<open>p \<ge> 1\<close>;
  otherwise the sum over \<open>j = 0..k\<close> of the probability mass built from
  \<open>(1 - p) ^ n\<close> by the recurrence, clamped to the unit interval.
\<close>

theorem binom_cdf_cases:
  "binom_cdf k n p =
     (if k < 0 then 0
      else if n \<le> k then 1
      else if p \<le> 0 then 1
      else if 1 \<le> p then 0
      else min (max (cdf_sum n p (nat k)) 0) 1)"
proof -
  have "snd (fold (binom_step n p) [1..k] ((1 - p) ^ nat n, (1 - p) ^ nat n)) = cdf_sum n p (nat k)"
    if "0 \<le> k"
    using fold_binom_step[of n p "nat k"] that by simp
  then show ?thesis
    by (simp add: binom_cdf_def Let_def)
qed

theorem binom_cdf_cases_witness:
  "binom_cdf 1 2 (1 / 2) = 3 / 4"
  using binom_cdf_cases[of 1 2 "1 / 2"]
  by (simp add: cdf_sum_def power2_eq_square)

text \<open>
  C5 as stated fails: with \<open>p = 0\<close> and \<open>0 \<le> k < n\<close> the helper returns 1.
\<close>

theorem binom_cdf_nonpositive_p_counterexample:
  "(0::real) \<le> 0 \<and> binom_cdf 0 1 0 \<noteq> 0"
  by (simp add: binom_cdf_def)

text \<open>
  The parts of the interval that do not depend on the bisection: rejected arguments,
  the lower bound without a success and the upper bound without a failure.
\<close>

lemma clopper_pearson_invalid:
  "trials \<le> 0 \<or> successes < 0 \<or> successes > trials \<Longrightarrow>
     clopper_pearson_interval successes trials alpha = (0, 0)"
  by (simp add: clopper_pearson_interval_def)

lemma clopper_pearson_no_success:
  "0 < trials \<Longrightarrow> fst (clopper_pearson_interval 0 trials alpha) = 0"
  by (simp add: clopper_pearson_interval_def py_round_def Let_def)

lemma clopper_pearson_all_success:
  "0 < trials \<Longrightarrow> snd (clopper_pearson_interval trials trials alpha) = 100"
  by (simp add: clopper_pearson_interval_def py_round_def Let_def)

text \<open>
  The bisection of \<open>solve_upper\<close> keeps \<open>lo \<le> hi\<close> and never raises \<open>hi\<close>.
\<close>

lemma solve_upper_step_inv:
  assumes "fst st \<le> snd st"
  shows "fst (solve_upper_step s n a st) \<le> snd (solve_upper_step s n a st)
       \<and> snd (solve_upper_step s n a st) \<le> snd st"
  using assms by (simp add: solve_upper_step_def Let_def)

lemma solve_upper_funpow_inv:
  "fst st \<le> snd st \<Longrightarrow>
     fst ((solve_upper_step s n a ^^ m) st) \<le> snd ((solve_upper_step s n a ^^ m) st)
   \<and> snd ((solve_upper_step s n a ^^ m) st) \<le> snd st"
proof (induction m)
  case 0
  then show ?case by simp
next
  case (Suc m)
  then show ?case
    using solve_upper_step_inv[of "(solve_upper_step s n a ^^ m) st" s n a] by force
qed

lemma cdf_half: "binom_cdf 5 10 (1/2) = 319/512"
  by (simp add: binom_cdf_def binom_step_def upto.simps power_divide)

lemma cdf_quarter: "binom_cdf 5 10 (1/4) > 975/1000"
  by (simp add: binom_cdf_def binom_step_def upto.simps power_divide)

lemma cdf_three_eighths: "binom_cdf 5 10 (3/8) \<le> 975/1000"
  by (simp add: binom_cdf_def binom_step_def upto.simps power_divide)

lemma solve_upper_three_steps:
  "(solve_upper_step 5 10 alpha_default ^^ 3) (0, 1) = (1/4, 3/8)"
proof -
  have 1: "solve_upper_step 5 10 alpha_default (0, 1) = (0, 1/2)"
    by (simp add: solve_upper_step_def Let_def cdf_half alpha_default_def)
  have 2: "solve_upper_step 5 10 alpha_default (0, 1/2) = (1/4, 1/2)"
    using cdf_quarter by (simp add: solve_upper_step_def Let_def alpha_default_def)
  have 3: "solve_upper_step 5 10 alpha_default (1/4, 1/2) = (1/4, 3/8)"
    using cdf_three_eighths by (simp add: solve_upper_step_def Let_def alpha_default_def)
  show ?thesis by (simp add: numeral_3_eq_3 1 2 3)
qed

lemma solve_upper_5_10: "solve_upper 5 10 alpha_default \<le> 3/8"
proof -
  have "(solve_upper_step 5 10 alpha_default ^^ 60) (0, 1)
          = (solve_upper_step 5 10 alpha_default ^^ 57) (1/4, 3/8)"
    using funpow_add[of 57 3 "solve_upper_step 5 10 alpha_default"] solve_upper_three_steps
    by simp
  then show ?thesis
    using solve_upper_funpow_inv[where st="(1/4, 3/8)" and s=5 and n=10
                                   and a=alpha_default and m=57]
    by (simp add: solve_upper_def)
qed

text \<open>
  C3 at five successes in ten trials: the upper bound the code returns lies below the
  point estimate of 50 percent, because \<open>solve_upper\<close> searches for the proportion
  where the distribution function is \<open>1 - alpha / 2\<close>.
\<close>

theorem clopper_pearson_5_10_upper:
  "snd (clopper_pearson_interval 5 10 alpha_default) < 50"
proof -
  have "snd (clopper_pearson_interval 5 10 alpha_default)
          = py_round 1 (solve_upper 5 10 alpha_default * 100)"
    by (simp add: clopper_pearson_interval_def Let_def)
  also have "\<dots> \<le> solve_upper 5 10 alpha_default * 100 + 1 / (2 * 10 ^ 1)"
    by (rule py_round_upper)
  also have "\<dots> < 50" using solve_upper_5_10 by simp
  finally show ?thesis .
qed

section \<open>Properties of the score-based approval service\<close>

text \<open>
  The bands of \<open>_calculate_follower_accuracy_score\<close> when both counts are known and
  not zero.
\<close>

lemma follower_accuracy_bands:
  assumes "vr_actual_followers v = Some actual" and "actual \<noteq> 0" and "sub_follower_count s \<noteq> 0"
  shows "calculate_follower_accuracy_score s v =
           (let variance = real_of_int \<bar>actual - sub_follower_count s\<bar>
                             / real_of_int (max actual (sub_follower_count s))
            in if variance \<le> 5 / 100 then 100
               else if variance \<le> 10 / 100 then 80
               else if variance \<le> 20 / 100 then 60
               else if variance \<le> 30 / 100 then 40
               else if variance \<le> 50 / 100 then 20
               else 0)"
  using assms by (simp add: calculate_follower_accuracy_score_def truthy_int_def Let_def)

text \<open>
  C4 at a verified follower count of exactly 0 against 5000 submitted followers: the
  first test of the function takes the zero for a missing value and returns the neutral
  30; the later test for a zero count, which returns 0, is never reached.
\<close>

theorem follower_accuracy_zero_actual:
  "calculate_follower_accuracy_score sample_submission
     (sample_verification\<lparr>vr_actual_followers := Some 0\<rparr>) = 30"
  by (simp add: calculate_follower_accuracy_score_def sample_submission_def
        sample_verification_def truthy_int_def)

theorem follower_accuracy_zero_actual_witness:
  "vr_actual_followers (sample_verification\<lparr>vr_actual_followers := Some 0\<rparr>) = Some 0
   \<and> calculate_follower_accuracy_score sample_submission
         (sample_verification\<lparr>vr_actual_followers := Some 0\<rparr>) \<noteq> 0"
  using follower_accuracy_zero_actual by simp

text \<open>
  C2. With a valid verification of confidence 80, 5000 verified and 5000 submitted
  followers, an account age of 800 days, a verified badge, an engagement rate of 4.0,
  the platform Twitter and no risk penalty, the approval score is 90, which exceeds 70,
  and \<open>_should_auto_approve\<close> holds; and with 100 verified followers
  \<open>_should_auto_approve\<close> fails for every submission and every score.
\<close>

theorem auto_approval_gating:
  assumes "vr_is_valid v" and "vr_confidence_score v = 80"
    and "vr_actual_followers v = Some 5000" and "sub_follower_count s = 5000"
    and "vr_account_age_days v = Some 800" and "vr_is_verified v"
    and "vr_engagement_rate v = Some 4" and "sub_platform s = ''Twitter''"
    and "recent_submissions_count db now s \<le> 3"
    and "\<not> is_suspicious_url (sub_url s)"
    and "\<not> has_naming_inconsistencies s v"
  shows "calculate_approval_score db now s v = 90
       \<and> 70 < calculate_approval_score db now s v
       \<and> should_auto_approve default_settings s v (calculate_approval_score db now s v)
       \<and> (\<forall>s' v' score. vr_actual_followers v' = Some 100
              \<longrightarrow> \<not> should_auto_approve default_settings s' v' score)"
proof -
  have score: "calculate_approval_score db now s v = 90"
    using assms
    by (simp add: calculate_approval_score_def calculate_follower_accuracy_score_def
          calculate_account_age_score_def calculate_engagement_score_def
          apply_risk_penalties_def truthy_int_def py_int_of_float_def Let_def)
  have approve: "should_auto_approve default_settings s v 90"
    using assms
    by (simp add: should_auto_approve_def default_settings_def platform_check_def)
  have floor: "\<not> should_auto_approve default_settings s' v' score"
    if "vr_actual_followers v' = Some 100" for s' v' score
    using that by (simp add: should_auto_approve_def default_settings_def)
  show ?thesis using score approve floor by simp
qed

theorem auto_approval_gating_witness:
  "calculate_approval_score [] 0 sample_submission sample_verification = 90
   \<and> should_auto_approve default_settings sample_submission sample_verification
         (calculate_approval_score [] 0 sample_submission sample_verification)
   \<and> \<not> should_auto_approve default_settings sample_submission
         (sample_verification\<lparr>vr_actual_followers := Some 100\<rparr>) 90"
proof -
  have h1: "\<not> is_suspicious_url (sub_url sample_submission)" by code_simp
  have h2: "\<not> has_naming_inconsistencies sample_submission sample_verification" by code_simp
  have h3: "recent_submissions_count [] 0 sample_submission \<le> 3"
    by (simp add: recent_submissions_count_def)
  have v: "vr_is_valid sample_verification" "vr_confidence_score sample_verification = 80"
    "vr_actual_followers sample_verification = Some 5000"
    "vr_account_age_days sample_verification = Some 800" "vr_is_verified sample_verification"
    "vr_engagement_rate sample_verification = Some 4"
    by (simp_all add: sample_verification_def)
  have s: "sub_follower_count sample_submission = 5000" "sub_platform sample_submission = ''Twitter''"
    by (simp_all add: sample_submission_def)
  have low: "vr_actual_followers (sample_verification\<lparr>vr_actual_followers := Some 100\<rparr>) = Some 100"
    by simp
  note g = auto_approval_gating[OF v(1) v(2) v(3) s(1) v(4) v(5) v(6) s(2) h3 h1 h2]
  from g low show ?thesis by blast
qed

section \<open>Properties of the payload-based approval service\<close>

lemma decide_status_pending:
  assumes "followers = 0 \<or> (\<exists>v. p_mock_data d = Some v \<and> py_truthy v)"
  shows "fst (snd (decide_status m d platform followers posts)) = ''pending''"
  using assms by (auto simp: decide_status_def Let_def)

lemma process_submission_row:
  assumes "process_submission m to_float db_create tbl d = (res, Some row, tbl')"
  shows "\<exists>submitted_by platform channel_name followers following posts_count.
           coerce_int to_float (get_value (p_followers d)) = Inr followers \<and>
           row = build_row m d submitted_by platform channel_name followers following posts_count"
  using assms
  by (auto simp: process_submission_def Let_def split: if_splits option.splits sum.splits prod.splits)
     blast+

text \<open>
  C1. Whenever \<open>process_submission\<close> creates a row for a payload whose followers
  value coerces to 0 or whose mock-data flag is set, the row has the status pending,
  and so not approved, whatever the minimum-follower threshold is.
\<close>

theorem mock_data_conservatism:
  assumes "process_submission min_followers to_float db_create tbl d = (res, Some row, tbl')"
    and "coerce_int to_float (get_value (p_followers d)) = Inr 0
         \<or> (\<exists>v. p_mock_data d = Some v \<and> py_truthy v)"
  shows "ns_status row = ''pending'' \<and> ns_status row \<noteq> ''approved''"
proof -
  obtain submitted_by platform channel_name followers following posts_count where
    f: "coerce_int to_float (get_value (p_followers d)) = Inr followers" and
    r: "row = build_row min_followers d submitted_by platform channel_name followers following posts_count"
    using process_submission_row[OF assms(1)] by blast
  from assms(2) f have "followers = 0 \<or> (\<exists>v. p_mock_data d = Some v \<and> py_truthy v)"
    by auto
  then have "ns_status row = ''pending''"
    using decide_status_pending[of followers d] by (simp add: r build_row_def Let_def)
  then show ?thesis by simp
qed

lemma sample_payload_creates_row:
  "fst (snd (process_submission 1000 sample_to_float (\<lambda>_. Some 1) [] sample_payload)) \<noteq> None"
  by code_simp

theorem mock_data_conservatism_witness:
  "map_option ns_status
     (fst (snd (process_submission 1000 sample_to_float (\<lambda>_. Some 1) [] sample_payload)))
     = Some ''pending''"
proof -
  obtain res row tbl' where
    run: "process_submission 1000 sample_to_float (\<lambda>_. Some 1) [] sample_payload
            = (res, Some row, tbl')"
    using sample_payload_creates_row by (metis option.exhaust prod.collapse)
  have mock: "\<exists>v. p_mock_data sample_payload = Some v \<and> py_truthy v"
    by (simp add: sample_payload_def py_truthy_def)
  from mock_data_conservatism[OF run] mock have "ns_status row = ''pending''" by blast
  then show ?thesis by (simp add: run)
qed

section \<open>Properties of the notification feed\<close>

lemma call_notification_unread:
  assumes "n_unread (call_notification db now rd c)"
  shows "now - hours_24 \<le> n_timestamp (call_notification db now rd c)
       \<and> n_id (call_notification db now rd c) \<notin> rd"
  using assms by (simp add: call_notification_def Let_def)

lemma submission_notification_unread:
  assumes "n_unread (submission_notification now rd s)"
  shows "now - hours_24 \<le> n_timestamp (submission_notification now rd s)
       \<and> n_id (submission_notification now rd s) \<notin> rd
       \<and> (sub_status s = ''approved'' \<or> sub_status s = ''rejected'')"
  using assms by (simp add: submission_notification_def Let_def)

lemma feed_items:
  assumes "n \<in> set (build_user_notifications db now user limit)"
  shows "(\<exists>c \<in> set (db_trade_calls db). n = call_notification db now (read_notification_ids db user) c)
       \<or> (\<exists>s \<in> set (db_submissions db). sub_submitted_by s = user
              \<and> n = submission_notification now (read_notification_ids db user) s)"
proof -
  have "n \<in> set (map (call_notification db now (read_notification_ids db user))
                    (watched_trade_calls db user limit))
      \<or> n \<in> set (map (submission_notification now (read_notification_ids db user))
                    (user_submissions db user limit))"
    using assms in_set_takeD[of n limit]
    by (fastforce simp: build_user_notifications_def Let_def split: if_splits)
  moreover have "set (watched_trade_calls db user limit) \<subseteq> set (db_trade_calls db)"
    by (auto simp: watched_trade_calls_def order_desc_def dest!: in_set_takeD)
  moreover have "set (user_submissions db user limit)
                   \<subseteq> {s \<in> set (db_submissions db). sub_submitted_by s = user}"
    by (auto simp: user_submissions_def order_desc_def dest!: in_set_takeD)
  ultimately show ?thesis by auto
qed

lemma read_ids_after_mark:
  "nid \<noteq> [] \<Longrightarrow> nid \<in> read_notification_ids (mark_notification_read db user nid) user"
  by (force simp: read_notification_ids_def mark_notification_read_def)

text \<open>
  C6. An item of the feed is unread only if its time stamp is not older than 24 hours
  and the user has no read record for its id and, for a submission item, the status of
  the submission is approved or rejected. So a signal older than 24 hours is never
  unread, a pending submission is never unread, and once a read record exists for an
  id, every rebuilt feed shows the item with that id as read.
\<close>

theorem notification_unread_window:
  "(\<forall>n \<in> set (build_user_notifications db now user limit). n_unread n \<longrightarrow>
       now - hours_24 \<le> n_timestamp n
     \<and> n_id n \<notin> read_notification_ids db user
     \<and> (n_category n = ''submissions'' \<longrightarrow>
          (\<exists>s \<in> set (db_submissions db). sub_submitted_by s = user
             \<and> n = submission_notification now (read_notification_ids db user) s
             \<and> (sub_status s = ''approved'' \<or> sub_status s = ''rejected''))))
   \<and> (\<forall>rd c t. tc_timestamp c = Some t \<and> t < now - hours_24
          \<longrightarrow> \<not> n_unread (call_notification db now rd c))
   \<and> (\<forall>rd s. sub_status s = ''pending'' \<longrightarrow> \<not> n_unread (submission_notification now rd s))
   \<and> (\<forall>nid now' limit'. nid \<noteq> [] \<longrightarrow>
         (\<forall>n \<in> set (build_user_notifications (mark_notification_read db user nid) now' user limit').
             n_id n = nid \<longrightarrow> \<not> n_unread n))"
proof (intro conjI)
  show "\<forall>n \<in> set (build_user_notifications db now user limit). n_unread n \<longrightarrow>
       now - hours_24 \<le> n_timestamp n
     \<and> n_id n \<notin> read_notification_ids db user
     \<and> (n_category n = ''submissions'' \<longrightarrow>
          (\<exists>s \<in> set (db_submissions db). sub_submitted_by s = user
             \<and> n = submission_notification now (read_notification_ids db user) s
             \<and> (sub_status s = ''approved'' \<or> sub_status s = ''rejected'')))"
  proof (intro ballI impI)
    fix n
    assume mem: "n \<in> set (build_user_notifications db now user limit)" and un: "n_unread n"
    let ?rd = "read_notification_ids db user"
    from feed_items[OF mem] consider
      (call) c where "c \<in> set (db_trade_calls db)" "n = call_notification db now ?rd c"
      | (sub) s where "s \<in> set (db_submissions db)" "sub_submitted_by s = user"
          "n = submission_notification now ?rd s"
      by blast
    then show "now - hours_24 \<le> n_timestamp n
     \<and> n_id n \<notin> ?rd
     \<and> (n_category n = ''submissions'' \<longrightarrow>
          (\<exists>s \<in> set (db_submissions db). sub_submitted_by s = user
             \<and> n = submission_notification now ?rd s
             \<and> (sub_status s = ''approved'' \<or> sub_status s = ''rejected'')))"
    proof cases
      case call
      have "n_category n = ''signals''"
        by (simp add: call(2) call_notification_def Let_def)
      then show ?thesis
        using call_notification_unread[of db now ?rd c] un call(2) by simp
    next
      case sub
      then show ?thesis
        using submission_notification_unread[of now ?rd s] un by blast
    qed
  qed
next
  show "\<forall>rd c t. tc_timestamp c = Some t \<and> t < now - hours_24
          \<longrightarrow> \<not> n_unread (call_notification db now rd c)"
    by (simp add: call_notification_def Let_def)
next
  show "\<forall>rd s. sub_status s = ''pending'' \<longrightarrow> \<not> n_unread (submission_notification now rd s)"
    by (simp add: submission_notification_def Let_def)
next
  show "\<forall>nid now' limit'. nid \<noteq> [] \<longrightarrow>
         (\<forall>n \<in> set (build_user_notifications (mark_notification_read db user nid) now' user limit').
             n_id n = nid \<longrightarrow> \<not> n_unread n)"
  proof (intro allI impI ballI)
    fix nid now' limit' n
    assume ne: "nid \<noteq> []"
      and mem: "n \<in> set (build_user_notifications (mark_notification_read db user nid) now' user limit')"
      and id: "n_id n = nid"
    let ?db = "mark_notification_read db user nid"
    let ?rd = "read_notification_ids ?db user"
    have rd: "nid \<in> ?rd" using ne by (rule read_ids_after_mark)
    from feed_items[OF mem] consider
      (call) c where "n = call_notification ?db now' ?rd c"
      | (sub) s where "n = submission_notification now' ?rd s"
      by blast
    then show "\<not> n_unread n"
    proof cases
      case call
      then show ?thesis
        using call_notification_unread[of ?db now' ?rd c] rd id by auto
    next
      case sub
      then show ?thesis
        using submission_notification_unread[of now' ?rd s] rd id by auto
    qed
  qed
qed

lemma sample_feed_head:
  "hd (build_user_notifications sample_db sample_now 1 15)
     \<in> set (build_user_notifications sample_db sample_now 1 15)
   \<and> n_unread (hd (build_user_notifications sample_db sample_now 1 15))"
  by code_simp

lemma sample_feed_marked:
  "n_id (hd (build_user_notifications (mark_notification_read sample_db 1 ''submission-8'') sample_now 1 15)) = ''submission-8''
   \<and> hd (build_user_notifications (mark_notification_read sample_db 1 ''submission-8'') sample_now 1 15)
        \<in> set (build_user_notifications (mark_notification_read sample_db 1 ''submission-8'') sample_now 1 15)"
  by code_simp

theorem notification_unread_window_witness:
  "n_unread (hd (build_user_notifications sample_db sample_now 1 15))
   \<and> sample_now - hours_24 \<le> n_timestamp (hd (build_user_notifications sample_db sample_now 1 15))
   \<and> \<not> n_unread (submission_notification sample_now {} sample_submission)
   \<and> \<not> n_unread (hd (build_user_notifications
                       (mark_notification_read sample_db 1 ''submission-8'') sample_now 1 15))"
proof -
  note w = notification_unread_window[of sample_db sample_now 1 15]
  have p: "sub_status sample_submission = ''pending''" by (simp add: sample_submission_def)
  have ne: "''submission-8'' \<noteq> []" by simp
  from w sample_feed_head
  have a: "sample_now - hours_24 \<le> n_timestamp (hd (build_user_notifications sample_db sample_now 1 15))"
    by blast
  from w p have b: "\<not> n_unread (submission_notification sample_now {} sample_submission)"
    by blast
  from w ne sample_feed_marked
  have c: "\<not> n_unread (hd (build_user_notifications
                       (mark_notification_read sample_db 1 ''submission-8'') sample_now 1 15))"
    by blast
  from a b c sample_feed_head show ?thesis by blast
qed



section \<open>Properties of the search service\<close>

text \<open>
  C7, as the code has it. A platform that is outside the allow-list after surrounding
  white space is stripped gives the same result as an empty platform; a category that is
  in the allow-list after stripping and lower-casing is kept in that form, any other
  category is cleared; a sort key outside the four known ones becomes relevance; the
  page size lies between 6 and 30.
\<close>

theorem search_sanitization:
  "(py_strip (get_str platform) \<notin> SUPPORTED_PLATFORM_VALUES \<longrightarrow>
      perform_influencer_search db query platform category sort_by page page_size
        = perform_influencer_search db query (Some []) category sort_by page page_size)
   \<and> (py_lower (py_strip (get_str category)) \<in> SUPPORTED_CATEGORY_VALUES \<longrightarrow>
        sa_category (sanitize_search_args query platform category sort_by page page_size)
          = py_lower (py_strip (get_str category)))
   \<and> (py_lower (py_strip (get_str category)) \<notin> SUPPORTED_CATEGORY_VALUES \<longrightarrow>
        sa_category (sanitize_search_args query platform category sort_by page page_size) = [])
   \<and> (sort_by \<notin> {''relevance'', ''accuracy'', ''calls'', ''name''} \<longrightarrow>
        sa_sort_by (sanitize_search_args query platform category sort_by page page_size)
          = ''relevance'')
   \<and> 6 \<le> sa_page_size (sanitize_search_args query platform category sort_by page page_size)
   \<and> sa_page_size (sanitize_search_args query platform category sort_by page page_size) \<le> 30"
proof -
  have e: "py_strip (get_str (Some [])) = []"
    by (simp add: py_strip_def get_str_def)
  have n: "[] \<notin> SUPPORTED_PLATFORM_VALUES"
    by (simp add: SUPPORTED_PLATFORM_VALUES_def SUPPORTED_SEARCH_PLATFORMS_def)
  show ?thesis
    by (simp add: perform_influencer_search_def sanitize_search_args_def Let_def e n)
qed

theorem search_sanitization_witness:
  "perform_influencer_search search_db None (Some ''bogus'') (Some ''crypto'') ''relevance'' None (Some 1000)
     = perform_influencer_search search_db None (Some []) (Some ''crypto'') ''relevance'' None (Some 1000)
   \<and> sa_category (sanitize_search_args None (Some ''bogus'') (Some ''crypto'') ''relevance'' None (Some 1000))
        = ''crypto''
   \<and> sa_sort_by (sanitize_search_args None (Some ''bogus'') (Some ''crypto'') ''newest'' None (Some 1))
        = ''relevance''
   \<and> 6 \<le> sa_page_size (sanitize_search_args None (Some ''bogus'') (Some ''crypto'') ''relevance'' None (Some 1))
   \<and> sa_page_size (sanitize_search_args None (Some ''bogus'') (Some ''crypto'') ''relevance'' None (Some 1000)) \<le> 30"
proof -
  have p: "py_strip (get_str (Some ''bogus'')) \<notin> SUPPORTED_PLATFORM_VALUES" by code_simp
  have c: "py_lower (py_strip (get_str (Some ''crypto''))) \<in> SUPPORTED_CATEGORY_VALUES" by code_simp
  have c': "py_lower (py_strip (get_str (Some ''crypto''))) = ''crypto''" by code_simp
  have s: "''newest'' \<notin> {''relevance'', ''accuracy'', ''calls'', ''name''}" by simp
  note w1 = search_sanitization[of "Some ''bogus''" search_db None "Some ''crypto''" "''relevance''" None "Some 1000"]
  note w2 = search_sanitization[of "Some ''bogus''" search_db None "Some ''crypto''" "''newest''" None "Some 1"]
  note w3 = search_sanitization[of "Some ''bogus''" search_db None "Some ''crypto''" "''relevance''" None "Some 1"]
  from w1 p c c' w2 s w3 show ?thesis by simp
qed

text \<open>
  C7 as stated fails: the platform \<open>" Twitter"\<close> is not a member of the allow-list, yet
  the search filters on Twitter; the category \<open>"Crypto"\<close> is not a member of the
  category list, yet it is kept as \<open>"crypto"\<close>.
\<close>

theorem search_allow_list_counterexample:
  "'' Twitter'' \<notin> SUPPORTED_PLATFORM_VALUES
   \<and> perform_influencer_search search_db None (Some '' Twitter'') None ''relevance'' None None
       \<noteq> perform_influencer_search search_db None (Some []) None ''relevance'' None None
   \<and> ''Crypto'' \<notin> SUPPORTED_CATEGORY_VALUES
   \<and> sa_category (sanitize_search_args None None (Some ''Crypto'') ''relevance'' None None) \<noteq> []"
proof -
  have 1: "sp_total (perform_influencer_search search_db None (Some '' Twitter'') None ''relevance'' None None) = 1"
    by code_simp
  have 2: "sp_total (perform_influencer_search search_db None (Some []) None ''relevance'' None None) = 2"
    by code_simp
  have 3: "'' Twitter'' \<notin> SUPPORTED_PLATFORM_VALUES" by code_simp
  have 4: "''Crypto'' \<notin> SUPPORTED_CATEGORY_VALUES" by code_simp
  have 5: "sa_category (sanitize_search_args None None (Some ''Crypto'') ''relevance'' None None) = ''crypto''"
    by code_simp
  from 1 2 have "perform_influencer_search search_db None (Some '' Twitter'') None ''relevance'' None None
       \<noteq> perform_influencer_search search_db None (Some []) None ''relevance'' None None"
    by auto
  with 3 4 5 show ?thesis by simp
qed



section \<open>Properties of the Telegram login verification\<close>







section \<open>Properties of the return simulation\<close>

lemma py_round_of_int: "py_round nd (of_int k) = of_int k"
proof -
  have e: "of_int k * (10::real) ^ nd = of_int (k * 10 ^ nd)" by simp
  have f: "\<lfloor>of_int k * (10::real) ^ nd\<rfloor> = k * 10 ^ nd"
    unfolding e by (rule floor_of_int)
  show ?thesis
    unfolding py_round_def Let_def f by simp
qed

text \<open>
  C9. With a budget of 1000 and a period whose only resolved call hit its target, with
  an assumed entry price of 100 and a first target of 110, the budget per call is 1000,
  the single row of the chart data shows a return of 10 percent and a cumulative value
  of 1100, and the total return is 10 percent.
\<close>

theorem simulation_single_call:
  assumes "iid \<noteq> 0"
    and "find (\<lambda>i. Some (inf_id i) = Some iid) (db_influencers db) = Some i"
    and "historical_calls db i (now - period_days * day) now = [c]"
    and "tc_target_hit c = Some True"
    and "tc_assumed_entry_price c = Some 100"
    and "tc_target_first c = Some 110"
  shows "\<exists>sim. simulate_returns_api db now (Some iid) 1000 period_days = Response_ok sim
           \<and> per_call_budget 1000 (res_total_calls (sim_results sim)) = 1000
           \<and> map cr_return_pct (sim_chart_data sim) = [10]
           \<and> map cr_cumulative_value (sim_chart_data sim) = [1100]
           \<and> res_total_return_pct (sim_results sim) = 10"
proof -
  have r10: "py_round 2 10 = 10" using py_round_of_int[of 2 10] by simp
  have r1100: "py_round 2 1100 = 1100" using py_round_of_int[of 2 1100] by simp
  have w: "win_branch c"
    using assms by (simp add: win_branch_def is_true_def truthy_float_def)
  have loop: "simulate_loop 1000 [c] =
     (1100, [\<lparr>cr_date = timestamp_of c, cr_asset = asset_symbol c,
               cr_signal = tc_signal c, cr_entry = 100, cr_level = Target 110,
               cr_return_pct = 10, cr_return_amount = py_round 2 100,
               cr_cumulative_value = 1100\<rparr>])"
    using w assms(5,6)
    by (simp add: simulate_loop_def simulate_step_def per_call_budget_def price_def Let_def r10 r1100)
  show ?thesis
    using assms(1,2,3) loop
    by (simp add: simulate_returns_api_def simulate_for_def truthy_int_def Let_def
          summary_def per_call_budget_def r10)
qed

theorem simulation_single_call_witness:
  "(case simulate_returns_api sample_db sample_now (Some 3) 1000 30 of
      Response_ok sim \<Rightarrow>
        per_call_budget 1000 (res_total_calls (sim_results sim)) = 1000
        \<and> map cr_return_pct (sim_chart_data sim) = [10]
        \<and> map cr_cumulative_value (sim_chart_data sim) = [1100]
        \<and> res_total_return_pct (sim_results sim) = 10
    | Response_error code msg \<Rightarrow> False)"
proof -
  have i: "find (\<lambda>i. Some (inf_id i) = Some 3) (db_influencers sample_db) = Some sample_influencer"
    by code_simp
  have h: "historical_calls sample_db sample_influencer (sample_now - 30 * day) sample_now
             = [sample_call]"
    by code_simp
  have c: "tc_target_hit sample_call = Some True" "tc_assumed_entry_price sample_call = Some 100"
    "tc_target_first sample_call = Some 110"
    by (simp_all add: sample_call_def)
  have nz: "(3::int) \<noteq> 0" by simp
  from simulation_single_call[OF nz i h c] show ?thesis by auto
qed










end
